theory Spec2Isabelle
  imports Complex_Main "HOL-Library.AList"
begin

section \<open>Values, exceptions and observable effects\<close>

text \<open>
  The two scripts (\<^verbatim>\<open>finbert.py\<close> and \<^verbatim>\<open>finbert-invoke.py\<close>) drive a cloud SDK.
  What a predictor returns is whatever the endpoint's JSON response deserialises to, so a
  response is an arbitrary JSON value. A Python \<^verbatim>\<open>dict\<close> keeps insertion order and is an
  association list here; a JSON number with a fraction or exponent is a Python float and
  is carried as the number it denotes (no arithmetic is ever done on it).
\<close>

datatype json =
    JNull
  | JBool bool
  | JInt int
  | JFloat real
  | JStr string
  | JList "json list"
  | JDict "(string \<times> json) list"

text \<open>
  Exceptions are values. Only subclasses of \<^verbatim>\<open>Exception\<close> are modelled (the scripts
  catch nothing wider). \<open>OtherError\<close> stands for every provider or SDK error that is neither
  of the two IAM exception classes the code names; it carries the text of the error.
\<close>

datatype exn =
    EntityAlreadyExistsException
  | LimitExceededException
  | OtherError string
  | IndexError
  | KeyError string
  | TypeError
  | AttributeError
  | ValueError
  | OverflowError

text \<open>
  A printed line is the list of the pieces of its f-string: literal text or a string
  value (\<open>T\<close>), one non-ASCII code point of a literal (\<open>U\<close>), a number printed in
  decimal (\<open>N\<close>), the \<^verbatim>\<open>str()\<close> of a JSON value (\<open>V\<close>), the \<^verbatim>\<open>str()\<close> of an exception
  (\<open>E\<close>), and a number formatted with \<^verbatim>\<open>:.3f\<close> (\<open>F3\<close>).
\<close>

datatype frag = T string | U nat | N nat | V json | E exn | F3 json

record hf_model =
  transformers_version :: string
  pytorch_version :: string
  py_version :: string
  env :: "(string \<times> string) list"
  role :: string
  is_compiled_model :: bool

record deploy_args =
  initial_instance_count :: nat
  instance_type :: string
  endpoint_name_arg :: "string option"

record predictor =
  endpoint_name :: string

datatype role_response = RoleResponse (Role_Arn: string)

text \<open>
  Everything the scripts do to the outside world is an event: a printed line, the
  \<^verbatim>\<open>time.sleep\<close>, and each call of the SDK with the arguments the code passes.
\<close>

datatype event =
    Print "frag list"
  | Sleep nat
  | CreateRole string string string string
  | GetRole string
  | AttachRolePolicy string string
  | Deploy hf_model deploy_args
  | Predict predictor json

text \<open>
  The SDK is not code of this repository: it is a parameter. Each operation takes the
  provider's state \<open>'s\<close> and returns either the exception it raises or its response,
  with the provider's next state. \<open>json_dumps\<close> is the standard library's \<^verbatim>\<open>json.dumps\<close>.
  The clients, sessions and model objects the scripts construct are taken as constructed.
\<close>

record 's sdk =
  create_role :: "string \<Rightarrow> string \<Rightarrow> string \<Rightarrow> string \<Rightarrow> 's \<Rightarrow> (exn + role_response) \<times> 's"
  get_role :: "string \<Rightarrow> 's \<Rightarrow> (exn + role_response) \<times> 's"
  attach_role_policy :: "string \<Rightarrow> string \<Rightarrow> 's \<Rightarrow> (exn + unit) \<times> 's"
  deploy :: "hf_model \<Rightarrow> deploy_args \<Rightarrow> 's \<Rightarrow> (exn + predictor) \<times> 's"
  predict :: "predictor \<Rightarrow> json \<Rightarrow> 's \<Rightarrow> (exn + json) \<times> 's"
  json_dumps :: "json \<Rightarrow> string"

section \<open>The Python operations the scripts apply to a response\<close>

text \<open>\<^verbatim>\<open>x[0]\<close>: the first element of a list or string, a key lookup on a dict (JSON keys
  are strings, so the key \<^verbatim>\<open>0\<close> is never present), not subscriptable otherwise.\<close>

fun py_index0 :: "json \<Rightarrow> exn + json" where
  "py_index0 (JList []) = Inl IndexError"
| "py_index0 (JList (x # xs)) = Inr x"
| "py_index0 (JStr []) = Inl IndexError"
| "py_index0 (JStr (c # cs)) = Inr (JStr [c])"
| "py_index0 (JDict d) = Inl (KeyError ''0'')"
| "py_index0 _ = Inl TypeError"

text \<open>\<^verbatim>\<open>x[k] = v\<close> with a string key: only a dict supports it; the key keeps its place
  when present and is added at the end otherwise.\<close>

fun py_setitem :: "json \<Rightarrow> string \<Rightarrow> json \<Rightarrow> exn + json" where
  "py_setitem (JDict d) k v = Inr (JDict (AList.update k v d))"
| "py_setitem _ k v = Inl TypeError"

text \<open>\<^verbatim>\<open>x[k]\<close> with a string key.\<close>

fun py_getitem :: "json \<Rightarrow> string \<Rightarrow> exn + json" where
  "py_getitem (JDict d) k = (case map_of d k of None \<Rightarrow> Inl (KeyError k) | Some v \<Rightarrow> Inr v)"
| "py_getitem _ k = Inl TypeError"

text \<open>\<^verbatim>\<open>x.get(k, default)\<close>: only a dict has the method.\<close>

fun py_get :: "json \<Rightarrow> string \<Rightarrow> json \<Rightarrow> exn + json" where
  "py_get (JDict d) k dflt = Inr (case map_of d k of None \<Rightarrow> dflt | Some v \<Rightarrow> v)"
| "py_get _ k dflt = Inl AttributeError"

text \<open>\<^verbatim>\<open>f"{x:.3f}"\<close>: a float formats; an integer (a boolean is one) is first
  converted to a float, which raises \<^verbatim>\<open>OverflowError\<close> when it rounds to \<open>2 ^ 1024\<close> or
  beyond in magnitude, that is from \<open>2 ^ 1024 - 2 ^ 970\<close> on; a string raises
  \<^verbatim>\<open>ValueError\<close>, every other value \<^verbatim>\<open>TypeError\<close>.\<close>

definition float_overflow :: int where
  "float_overflow = 2 ^ 1024 - 2 ^ 970"

fun py_format_3f :: "json \<Rightarrow> exn + frag" where
  "py_format_3f (JInt n) =
     (if \<bar>n\<bar> < float_overflow then Inr (F3 (JInt n)) else Inl OverflowError)"
| "py_format_3f (JFloat x) = Inr (F3 (JFloat x))"
| "py_format_3f (JBool b) = Inr (F3 (JBool b))"
| "py_format_3f (JStr s) = Inl ValueError"
| "py_format_3f _ = Inl TypeError"

definition banner :: "nat \<Rightarrow> string" where
  "banner n = replicate n (CHR ''='')"

definition nl :: string where
  "nl = [CHR 0x0A]"

definition dq :: string where
  "dq = [CHR 0x22]"

text \<open>The request body both flows send: \<^verbatim>\<open>{"inputs": text}\<close>.\<close>

definition payload :: "string \<Rightarrow> json" where
  "payload text = JDict [(''inputs'', JStr text)]"

section \<open>The in-deployment test flow (\<^verbatim>\<open>test_endpoint\<close>)\<close>

definition test_texts :: "string list" where
  "test_texts =
    [''The company's quarterly earnings exceeded expectations significantly.'',
     ''Market volatility increased due to economic uncertainty.'',
     ''Strong revenue growth driven by innovative product launches.'',
     ''Major layoffs announced affecting 15% of workforce.'',
     ''Stock price surged after positive analyst upgrade.'']"

text \<open>The line printed first in both branches: the index and the text cut to 60
  characters, with an ellipsis when it was longer.\<close>

definition text_line :: "nat \<Rightarrow> string \<Rightarrow> event" where
  "text_line i text =
     Print [T nl, N i, T ''. Text: '', T dq, T (take 60 text),
            T (if length text > 60 then ''...'' else ''''), T dq]"

text \<open>Lines 142 to 151, what is done with a response once \<^verbatim>\<open>predict\<close> has returned
  it. The text line is printed before the score is formatted, so a score that does not
  format raises after that line.\<close>

definition report_result :: "nat \<Rightarrow> string \<Rightarrow> json \<Rightarrow> (exn + unit) \<times> event list" where
  "report_result i text result =
     (case result of
        JList (prediction # rest) \<Rightarrow>
          (case py_get prediction ''label'' (JStr ''Unknown'') of
             Inl e \<Rightarrow> (Inl e, [])
           | Inr label \<Rightarrow>
               (case py_get prediction ''score'' (JFloat 0.0) of
                  Inl e \<Rightarrow> (Inl e, [])
                | Inr score \<Rightarrow>
                    (case py_format_3f score of
                       Inl e \<Rightarrow> (Inl e, [text_line i text])
                     | Inr formatted \<Rightarrow>
                         (Inr (),
                          [text_line i text,
                           Print [T ''   Sentiment: '', V label,
                                  T '' (confidence: '', formatted, T '')'']]))))
      | _ \<Rightarrow> (Inr (), [text_line i text, Print [T ''   Result: '', V result]]))"

text \<open>The body of the \<^verbatim>\<open>try\<close> for one text.\<close>

definition try_test_text ::
  "'s sdk \<Rightarrow> predictor \<Rightarrow> nat \<Rightarrow> string \<Rightarrow> 's \<Rightarrow> (exn + unit) \<times> 's \<times> event list" where
  "try_test_text api p i text s =
     (case predict api p (payload text) s of
        (Inl e, s') \<Rightarrow> (Inl e, s', [Predict p (payload text)])
      | (Inr result, s') \<Rightarrow>
          (case report_result i text result of
             (r, evs) \<Rightarrow> (r, s', Predict p (payload text) # evs)))"

text \<open>One iteration: the \<^verbatim>\<open>except Exception\<close> prints the error and the loop goes on.\<close>

definition error_line :: "nat \<Rightarrow> exn \<Rightarrow> event" where
  "error_line i e = Print [T nl, N i, T ''. Error testing text: '', E e]"

definition test_text :: "'s sdk \<Rightarrow> predictor \<Rightarrow> nat \<Rightarrow> string \<Rightarrow> 's \<Rightarrow> 's \<times> event list" where
  "test_text api p i text s =
     (case try_test_text api p i text s of
        (Inl e, s', evs) \<Rightarrow> (s', evs @ [error_line i e])
      | (Inr u, s', evs) \<Rightarrow> (s', evs))"

fun test_loop :: "'s sdk \<Rightarrow> predictor \<Rightarrow> nat \<Rightarrow> string list \<Rightarrow> 's \<Rightarrow> 's \<times> event list" where
  "test_loop api p i [] s = (s, [])"
| "test_loop api p i (text # texts) s =
     (case test_text api p i text s of
        (s1, evs1) \<Rightarrow>
          (case test_loop api p (Suc i) texts s1 of
             (s2, evs2) \<Rightarrow> (s2, evs1 @ evs2)))"

definition test_header :: "event list" where
  "test_header =
     [Print [T (nl @ banner 50)], Print [T ''TESTING ENDPOINT''], Print [T (banner 50)],
      Print [T ''Testing with sample financial texts:'']]"

definition test_endpoint :: "'s sdk \<Rightarrow> predictor \<Rightarrow> 's \<Rightarrow> (exn + unit) \<times> 's \<times> event list" where
  "test_endpoint api p s =
     (case test_loop api p 1 test_texts s of
        (s', evs) \<Rightarrow> (Inr (), s', test_header @ evs))"

section \<open>The role provisioner (\<^verbatim>\<open>create_sagemaker_execution_role\<close>)\<close>

definition role_name :: string where
  "role_name = ''SageMakerExecutionRole''"

definition trust_policy :: json where
  "trust_policy =
     JDict [(''Version'', JStr ''2012-10-17''),
            (''Statement'',
             JList [JDict [(''Effect'', JStr ''Allow''),
                           (''Principal'', JDict [(''Service'', JStr ''sagemaker.amazonaws.com'')]),
                           (''Action'', JStr ''sts:AssumeRole'')]])]"

definition role_description :: string where
  "role_description = ''SageMaker execution role for model deployment''"

definition check_mark :: frag where
  "check_mark = U 0x2713"

text \<open>The \<^verbatim>\<open>try\<close>/\<^verbatim>\<open>except EntityAlreadyExistsException\<close> block: create the role and
  sleep, or, when creation says the role exists, fetch it. Any other exception of
  \<^verbatim>\<open>create_role\<close>, and any exception of \<^verbatim>\<open>get_role\<close>, leaves the function.\<close>

definition create_or_get_role :: "'s sdk \<Rightarrow> 's \<Rightarrow> (exn + string) \<times> 's \<times> event list" where
  "create_or_get_role api s =
     (let doc = json_dumps api trust_policy;
          started = [Print [T ''Creating IAM role: '', T role_name],
                     CreateRole role_name doc role_description ''/'']
      in case create_role api role_name doc role_description ''/'' s of
           (Inr response, s1) \<Rightarrow>
             (let role_arn = Role_Arn response
              in (Inr role_arn, s1,
                  started @ [Print [check_mark, T '' Created role: '', T role_arn], Sleep 10]))
         | (Inl e, s1) \<Rightarrow>
             (if e = EntityAlreadyExistsException then
                (let fetching = started @
                       [Print [T ''Role '', T role_name, T '' already exists, using existing role''],
                        GetRole role_name]
                 in case get_role api role_name s1 of
                      (Inr response, s2) \<Rightarrow> (Inr (Role_Arn response), s2, fetching)
                    | (Inl e2, s2) \<Rightarrow> (Inl e2, s2, fetching))
              else (Inl e, s1, started)))"

definition required_policies :: "string list" where
  "required_policies =
     [''arn:aws:iam::aws:policy/AmazonSageMakerFullAccess'',
      ''arn:aws:iam::aws:policy/AmazonS3FullAccess'',
      ''arn:aws:iam::aws:policy/AmazonEC2ContainerRegistryReadOnly'']"

text \<open>One iteration of the attachment loop. Both \<^verbatim>\<open>except\<close> clauses only print, so the
  iteration has no way to raise: \<^verbatim>\<open>LimitExceededException\<close> is what the code reports as
  already attached, every other exception is the warning.\<close>

definition attach_policy :: "'s sdk \<Rightarrow> string \<Rightarrow> 's \<Rightarrow> 's \<times> event list" where
  "attach_policy api policy_arn s =
     (case attach_role_policy api role_name policy_arn s of
        (Inr u, s') \<Rightarrow>
          (s', [AttachRolePolicy role_name policy_arn,
                Print [check_mark, T '' Attached policy: '', T policy_arn]])
      | (Inl e, s') \<Rightarrow>
          (if e = LimitExceededException then
             (s', [AttachRolePolicy role_name policy_arn,
                   Print [T ''Policy already attached: '', T policy_arn]])
           else
             (s', [AttachRolePolicy role_name policy_arn,
                   Print [T ''Warning: Could not attach policy '', T policy_arn, T '': '', E e]])))"

fun attach_policies :: "'s sdk \<Rightarrow> string list \<Rightarrow> 's \<Rightarrow> 's \<times> event list" where
  "attach_policies api [] s = (s, [])"
| "attach_policies api (policy_arn # rest) s =
     (case attach_policy api policy_arn s of
        (s1, evs1) \<Rightarrow>
          (case attach_policies api rest s1 of
             (s2, evs2) \<Rightarrow> (s2, evs1 @ evs2)))"

definition create_sagemaker_execution_role ::
  "'s sdk \<Rightarrow> 's \<Rightarrow> (exn + string) \<times> 's \<times> event list" where
  "create_sagemaker_execution_role api s =
     (case create_or_get_role api s of
        (Inl e, s1, evs1) \<Rightarrow> (Inl e, s1, evs1)
      | (Inr role_arn, s1, evs1) \<Rightarrow>
          (case attach_policies api required_policies s1 of
             (s2, evs2) \<Rightarrow> (Inr role_arn, s2, evs1 @ evs2)))"

section \<open>The model deployer (\<^verbatim>\<open>deploy_huggingface_model\<close>)\<close>

definition hub :: "(string \<times> string) list" where
  "hub =
     [(''HF_MODEL_ID'', ''ProsusAI/finbert''),
      (''HF_TASK'', ''text-classification''),
      (''HF_OPTIMUM_BATCH_SIZE'', ''1''),
      (''HF_OPTIMUM_SEQUENCE_LENGTH'', ''512'')]"

text \<open>The model object after \<^verbatim>\<open>_is_compiled_model = True\<close> has been set on it.\<close>

definition huggingface_model :: "string \<Rightarrow> hf_model" where
  "huggingface_model role_arn =
     \<lparr>transformers_version = ''4.43.2'', pytorch_version = ''2.1.2'', py_version = ''py310'',
      env = hub, role = role_arn, is_compiled_model = True\<rparr>"

text \<open>The keyword arguments of the one \<^verbatim>\<open>deploy\<close> call; \<^verbatim>\<open>endpoint_name=None\<close>.\<close>

definition deploy_call_args :: deploy_args where
  "deploy_call_args =
     \<lparr>initial_instance_count = 1, instance_type = ''ml.inf2.xlarge'', endpoint_name_arg = None\<rparr>"

definition hub_item :: "string \<Rightarrow> exn + string" where
  "hub_item k = (case map_of hub k of None \<Rightarrow> Inl (KeyError k) | Some v \<Rightarrow> Inr v)"

definition deploy_banner :: "event list" where
  "deploy_banner =
     [Print [T (nl @ banner 50)], Print [T ''DEPLOYING HUGGINGFACE MODEL''], Print [T (banner 50)]]"

definition deploy_announce :: "event list" where
  "deploy_announce =
     [Print [T ''Deploying model to SageMaker endpoint...''],
      Print [U 0x26A0, U 0xFE0F, T ''  This may take 5-10 minutes...'']]"

text \<open>No \<^verbatim>\<open>try\<close> in this function: an exception of \<^verbatim>\<open>deploy\<close> leaves it at once.\<close>

definition deploy_huggingface_model ::
  "'s sdk \<Rightarrow> string \<Rightarrow> 's \<Rightarrow> (exn + predictor) \<times> 's \<times> event list" where
  "deploy_huggingface_model api role_arn s =
     (case hub_item ''HF_MODEL_ID'' of
        Inl e \<Rightarrow> (Inl e, s, deploy_banner)
      | Inr model_id \<Rightarrow>
          (case hub_item ''HF_TASK'' of
             Inl e \<Rightarrow> (Inl e, s, deploy_banner @ [Print [T ''Model ID: '', T model_id]])
           | Inr task \<Rightarrow>
               (let before = deploy_banner @
                      [Print [T ''Model ID: '', T model_id], Print [T ''Task: '', T task]] @
                      deploy_announce @
                      [Deploy (huggingface_model role_arn) deploy_call_args]
                in case deploy api (huggingface_model role_arn) deploy_call_args s of
                     (Inl e, s') \<Rightarrow> (Inl e, s', before)
                   | (Inr p, s') \<Rightarrow>
                       (Inr p, s',
                        before @
                        [Print [check_mark, T '' Model deployed successfully!''],
                         Print [check_mark, T '' Endpoint name: '', T (endpoint_name p)]]))))"

section \<open>The workflow (\<^verbatim>\<open>main\<close>)\<close>

definition main_banner :: "event list" where
  "main_banner =
     [Print [U 0x1F680, T '' SAGEMAKER HUGGINGFACE DEPLOYMENT SCRIPT''], Print [T (banner 60)]]"

definition step1_line :: event where
  "step1_line = Print [T ''Step 1: Creating SageMaker execution role...'']"

definition step2_line :: "string \<Rightarrow> event" where
  "step2_line role_arn =
     Print [T (nl @ ''Step 2: Deploying HuggingFace model with role: ''), T role_arn]"

definition step3_line :: event where
  "step3_line = Print [T (nl @ ''Step 3: Testing the deployed endpoint...'')]"

definition completion_lines :: "predictor \<Rightarrow> string \<Rightarrow> event list" where
  "completion_lines p role_arn =
     [Print [T (nl @ banner 50)], Print [T ''DEPLOYMENT COMPLETE!''], Print [T (banner 50)],
      Print [check_mark, T '' Endpoint Name: '', T (endpoint_name p)],
      Print [check_mark, T '' Role ARN: '', T role_arn],
      Print [T nl, U 0x1F4DD, T '' To connect to this endpoint later, use:''],
      Print [T (nl @ ''from sagemaker.huggingface import HuggingFacePredictor'' @ nl @ nl @
                ''predictor = HuggingFacePredictor('' @ nl @ ''    endpoint_name=''),
             T [CHR 0x27], T (endpoint_name p), T [CHR 0x27],
             T ('','' @ nl @ ''    sagemaker_session=sagemaker.Session()'' @ nl @ '')'' @ nl @ nl @
                ''result = predictor.predict({'' @ dq @ ''inputs'' @ dq @ '': '' @ dq @
                ''Your text here'' @ dq @ ''})'' @ nl @ ''print(result)'' @ nl @ ''        '')],
      Print [T nl, U 0x26A0, U 0xFE0F,
             T ''  Remember to delete the endpoint when done to avoid charges:''],
      Print [T ''predictor.delete_endpoint()'']]"

text \<open>The body of the \<^verbatim>\<open>try\<close> in \<^verbatim>\<open>main\<close>: the three steps in sequence, each one
  leaving the body with its exception when it raises.\<close>

definition main_try :: "'s sdk \<Rightarrow> 's \<Rightarrow> (exn + predictor) \<times> 's \<times> event list" where
  "main_try api s =
     (case create_sagemaker_execution_role api s of
        (Inl e, s1, evs1) \<Rightarrow> (Inl e, s1, step1_line # evs1)
      | (Inr role_arn, s1, evs1) \<Rightarrow>
          (case deploy_huggingface_model api role_arn s1 of
             (Inl e, s2, evs2) \<Rightarrow> (Inl e, s2, step1_line # evs1 @ step2_line role_arn # evs2)
           | (Inr p, s2, evs2) \<Rightarrow>
               (case test_endpoint api p s2 of
                  (Inl e, s3, evs3) \<Rightarrow>
                    (Inl e, s3,
                     step1_line # evs1 @ step2_line role_arn # evs2 @ step3_line # evs3)
                | (Inr u, s3, evs3) \<Rightarrow>
                    (Inr p, s3,
                     step1_line # evs1 @ step2_line role_arn # evs2 @ step3_line # evs3 @
                     completion_lines p role_arn))))"

definition failure_lines :: "exn \<Rightarrow> event list" where
  "failure_lines e =
     [Print [U 0x274C, T '' Deployment failed: '', E e],
      Print [T ''Please check your AWS credentials and permissions.'']]"

text \<open>The \<^verbatim>\<open>except Exception\<close> of \<^verbatim>\<open>main\<close> prints two lines and re-raises.\<close>

definition main :: "'s sdk \<Rightarrow> 's \<Rightarrow> (exn + predictor) \<times> 's \<times> event list" where
  "main api s =
     (case main_try api s of
        (Inl e, s', evs) \<Rightarrow> (Inl e, s', main_banner @ evs @ failure_lines e)
      | (Inr p, s', evs) \<Rightarrow> (Inr p, s', main_banner @ evs))"

section \<open>The standalone invocation flow (\<^verbatim>\<open>finbert-invoke.py\<close>)\<close>

definition invoke_predictor :: predictor where
  "invoke_predictor =
     \<lparr>endpoint_name = ''huggingface-pytorch-inference-neuronx-m-2025-07-03-02-04-22-948''\<rparr>"

definition inputs :: "string list" where
  "inputs =
     [''Hyperfine spiked 30% in the past day due to a new software release'',
      ''GE stock price droped 20% last quarter due to waining demand for appliances'',
      ''Linkedin subscriptions up 30%'']"

text \<open>\<^verbatim>\<open>result[0]["phrase"] = phrase\<close>: the first entry of the response is changed in
  place, so the response that is appended afterwards is the response with its first
  entry tagged. The statement raises unless the response is a non-empty list whose first
  entry is a dict.\<close>

definition tag_phrase :: "json \<Rightarrow> string \<Rightarrow> exn + json" where
  "tag_phrase result phrase =
     (case py_index0 result of
        Inl e \<Rightarrow> Inl e
      | Inr first \<Rightarrow>
          (case py_setitem first ''phrase'' (JStr phrase) of
             Inl e \<Rightarrow> Inl e
           | Inr first' \<Rightarrow>
               Inr (case result of JList (x # rest) \<Rightarrow> JList (first' # rest) | _ \<Rightarrow> result)))"

text \<open>The prediction loop has no \<^verbatim>\<open>try\<close>: the first exception, of \<^verbatim>\<open>predict\<close> or of
  the tagging, ends the script there.\<close>

fun predict_loop ::
  "'s sdk \<Rightarrow> predictor \<Rightarrow> string list \<Rightarrow> json list \<Rightarrow> 's \<Rightarrow> (exn + json list) \<times> 's \<times> event list"
where
  "predict_loop api p [] outputs s = (Inr outputs, s, [])"
| "predict_loop api p (phrase # rest) outputs s =
     (case predict api p (payload phrase) s of
        (Inl e, s1) \<Rightarrow> (Inl e, s1, [Predict p (payload phrase)])
      | (Inr result, s1) \<Rightarrow>
          (case tag_phrase result phrase of
             Inl e \<Rightarrow> (Inl e, s1, [Predict p (payload phrase)])
           | Inr tagged \<Rightarrow>
               (case predict_loop api p rest (outputs @ [tagged]) s1 of
                  (r, s2, evs) \<Rightarrow> (r, s2, Predict p (payload phrase) # evs))))"

text \<open>The line of the second loop for one collected output; the three subscripts are
  evaluated left to right.\<close>

definition phrase_line :: "json \<Rightarrow> exn + event" where
  "phrase_line pred =
     (case py_index0 pred of
        Inl e \<Rightarrow> Inl e
      | Inr first \<Rightarrow>
          (case py_getitem first ''phrase'' of
             Inl e \<Rightarrow> Inl e
           | Inr phrase \<Rightarrow>
               (case py_getitem first ''score'' of
                  Inl e \<Rightarrow> Inl e
                | Inr score \<Rightarrow>
                    (case py_getitem first ''label'' of
                       Inl e \<Rightarrow> Inl e
                     | Inr label \<Rightarrow>
                         Inr (Print [T ''Phrase: '', V phrase, T '', Score: '', V score,
                                     T '', Label: '', V label])))))"

fun print_loop :: "json list \<Rightarrow> (exn + unit) \<times> event list" where
  "print_loop [] = (Inr (), [])"
| "print_loop (pred # preds) =
     (case phrase_line pred of
        Inl e \<Rightarrow> (Inl e, [])
      | Inr line \<Rightarrow> (case print_loop preds of (r, evs) \<Rightarrow> (r, line # evs)))"

text \<open>The script for a list of inputs; its value on success is the final \<^verbatim>\<open>outputs\<close>.\<close>

definition invoke_flow ::
  "'s sdk \<Rightarrow> predictor \<Rightarrow> string list \<Rightarrow> 's \<Rightarrow> (exn + json list) \<times> 's \<times> event list" where
  "invoke_flow api p phrases s =
     (case predict_loop api p phrases [] s of
        (Inl e, s1, evs1) \<Rightarrow> (Inl e, s1, evs1)
      | (Inr outputs, s1, evs1) \<Rightarrow>
          (case print_loop outputs of
             (Inl e, evs2) \<Rightarrow> (Inl e, s1, evs1 @ evs2)
           | (Inr u, evs2) \<Rightarrow> (Inr outputs, s1, evs1 @ evs2)))"

definition invoke_script :: "'s sdk \<Rightarrow> 's \<Rightarrow> (exn + json list) \<times> 's \<times> event list" where
  "invoke_script api s = invoke_flow api invoke_predictor inputs s"

section \<open>Reading a trace\<close>

text \<open>The SDK calls of a trace, in order, and the durations of its sleeps.\<close>

fun is_call :: "event \<Rightarrow> bool" where
  "is_call (Print line) = False"
| "is_call (Sleep n) = False"
| "is_call ev = True"

definition calls_of :: "event list \<Rightarrow> event list" where
  "calls_of evs = filter is_call evs"

fun sleeps :: "event list \<Rightarrow> nat list" where
  "sleeps [] = []"
| "sleeps (Sleep n # evs) = n # sleeps evs"
| "sleeps (ev # evs) = sleeps evs"

section \<open>What the provider is assumed to do, and a provider to run the flows on\<close>

text \<open>The responses the endpoint gives to a list of texts sent one after the other,
  starting from the provider state \<open>s\<close>.\<close>

fun responses :: "'s sdk \<Rightarrow> predictor \<Rightarrow> string list \<Rightarrow> 's \<Rightarrow> (exn + json) list" where
  "responses api p [] s = []"
| "responses api p (text # texts) s =
     (case predict api p (payload text) s of (r, s') \<Rightarrow> r # responses api p texts s')"

text \<open>A response in the shape the endpoint documents: a non-empty list whose first entry
  is an object.\<close>

fun well_shaped :: "exn + json \<Rightarrow> bool" where
  "well_shaped (Inr (JList (JDict d # rest))) = True"
| "well_shaped _ = False"

text \<open>
  The identity provider keeps a registry of roles, \<open>known s\<close> mapping a role name to its
  identifier in the provider state \<open>s\<close>. The contract below is all that the idempotence
  of the role step needs of it: a role that was created or fetched is registered under
  the identifier returned; creating a registered role raises
  \<^verbatim>\<open>EntityAlreadyExistsException\<close> and fetching it returns its identifier, both leaving
  it registered; attaching a policy does not touch the registry.
\<close>

definition role_registry :: "'s sdk \<Rightarrow> ('s \<Rightarrow> string \<Rightarrow> string option) \<Rightarrow> bool" where
  "role_registry api known \<longleftrightarrow>
     (\<forall>n d c q s r s'. create_role api n d c q s = (Inr r, s') \<longrightarrow> known s' n = Some (Role_Arn r)) \<and>
     (\<forall>n d c q s a. known s n = Some a \<longrightarrow>
        (\<exists>s'. create_role api n d c q s = (Inl EntityAlreadyExistsException, s') \<and>
              known s' n = Some a)) \<and>
     (\<forall>n s r s'. get_role api n s = (Inr r, s') \<longrightarrow> known s' n = Some (Role_Arn r)) \<and>
     (\<forall>n s a. known s n = Some a \<longrightarrow>
        (\<exists>s'. get_role api n s = (Inr (RoleResponse a), s') \<and> known s' n = Some a)) \<and>
     (\<forall>n q s. known (snd (attach_role_policy api n q s)) n = known s n)"

text \<open>
  A provider that plays back a script: its state holds the registered roles and, for
  each kind of call that a claim varies, the outcomes of the calls still to come.
\<close>

record tape =
  roles :: "(string \<times> string) list"
  attach_results :: "(exn + unit) list"
  deploy_result :: "exn + predictor"
  predict_results :: "(exn + json) list"

definition scripted :: "tape sdk" where
  "scripted =
     \<lparr>create_role = (\<lambda>n d c q s.
        case map_of (roles s) n of
          Some a \<Rightarrow> (Inl EntityAlreadyExistsException, s)
        | None \<Rightarrow> (Inr (RoleResponse (''arn:aws:iam::123456789012:role/'' @ n)),
                   s\<lparr>roles := (n, ''arn:aws:iam::123456789012:role/'' @ n) # roles s\<rparr>)),
      get_role = (\<lambda>n s.
        case map_of (roles s) n of
          Some a \<Rightarrow> (Inr (RoleResponse a), s)
        | None \<Rightarrow> (Inl (OtherError ''NoSuchEntity''), s)),
      attach_role_policy = (\<lambda>n q s.
        case attach_results s of
          [] \<Rightarrow> (Inr (), s)
        | r # rs \<Rightarrow> (r, s\<lparr>attach_results := rs\<rparr>)),
      deploy = (\<lambda>m a s. (deploy_result s, s)),
      predict = (\<lambda>p body s.
        case predict_results s of
          [] \<Rightarrow> (Inl (OtherError ''ModelError''), s)
        | r # rs \<Rightarrow> (r, s\<lparr>predict_results := rs\<rparr>)),
      json_dumps = (\<lambda>j. ''{}'')\<rparr>"

definition fresh :: tape where
  "fresh = \<lparr>roles = [], attach_results = [],
            deploy_result = Inr \<lparr>endpoint_name = ''huggingface-pytorch-inference-0001''\<rparr>,
            predict_results = []\<rparr>"

definition positive :: json where
  "positive = JList [JDict [(''label'', JStr ''positive''), (''score'', JFloat 0.87)]]"

definition negative :: json where
  "negative = JList [JDict [(''label'', JStr ''negative''), (''score'', JFloat 0.95)]]"

definition demo_predictor :: predictor where
  "demo_predictor = \<lparr>endpoint_name = ''huggingface-pytorch-inference-0001''\<rparr>"

text \<open>The endpoint answers the first and third invocation and fails the second.\<close>

definition second_fails :: tape where
  "second_fails =
     fresh\<lparr>predict_results := [Inr positive, Inl (OtherError ''ModelError''), Inr negative]\<rparr>"

text \<open>The last of the test texts, the one the specification's canned response is for.\<close>

definition surged :: string where "surged = ''Stock price surged after positive analyst upgrade.''"

text \<open>The endpoint answers all three invocations.\<close>

definition all_answer :: tape where
  "all_answer = fresh\<lparr>predict_results := [Inr positive, Inr negative, Inr positive]\<rparr>"

text \<open>The identifier the scripted provider gives to the role of the scripts.\<close>

definition role_arn0 :: string where
  "role_arn0 = ''arn:aws:iam::123456789012:role/SageMakerExecutionRole''"

text \<open>The first attachment raises \<^verbatim>\<open>LimitExceededException\<close>, the second is refused, the
  third succeeds.\<close>

definition attach_trouble :: tape where
  "attach_trouble =
     fresh\<lparr>attach_results := [Inl LimitExceededException, Inl (OtherError ''AccessDenied'')]\<rparr>"

text \<open>The provider refuses the deployment.\<close>

definition deploy_refused :: tape where
  "deploy_refused = fresh\<lparr>deploy_result := Inl (OtherError ''ResourceLimitExceeded'')\<rparr>"

text \<open>The same for the five texts of the test flow: only the second invocation fails.\<close>

definition second_of_five_fails :: tape where
  "second_of_five_fails =
     fresh\<lparr>predict_results :=
       [Inr positive, Inl (OtherError ''ModelError''), Inr positive, Inr negative, Inr positive]\<rparr>"

section \<open>Facts about traces, loops and the scripted provider\<close>

lemma calls_of_append: "calls_of (xs @ ys) = calls_of xs @ calls_of ys"
  by (simp add: calls_of_def)

lemma sleeps_append: "sleeps (xs @ ys) = sleeps xs @ sleeps ys"
  by (induction xs rule: sleeps.induct) simp_all

lemma scripted_predict:
  "predict scripted p body s =
     (case predict_results s of
        [] \<Rightarrow> (Inl (OtherError ''ModelError''), s)
      | r # rs \<Rightarrow> (r, s\<lparr>predict_results := rs\<rparr>))"
  by (simp add: scripted_def)

lemma test_text_calls: "calls_of (snd (test_text api p i text s)) = [Predict p (payload text)]"
  by (auto simp: test_text_def try_test_text_def report_result_def calls_of_def text_line_def
        error_line_def split: prod.splits sum.splits json.splits list.splits)

lemma test_loop_calls:
  "calls_of (snd (test_loop api p i texts s)) = map (\<lambda>t. Predict p (payload t)) texts"
proof (induction texts arbitrary: i s)
  case Nil
  show ?case by (simp add: calls_of_def)
next
  case (Cons t ts)
  obtain s1 evs1 where a: "test_text api p i t s = (s1, evs1)"
    by (cases "test_text api p i t s")
  obtain s2 evs2 where b: "test_loop api p (Suc i) ts s1 = (s2, evs2)"
    by (cases "test_loop api p (Suc i) ts s1")
  from test_text_calls [of api p i t s] a have c: "calls_of evs1 = [Predict p (payload t)]"
    by simp
  from Cons.IH [of "Suc i" s1] b have d: "calls_of evs2 = map (\<lambda>t. Predict p (payload t)) ts"
    by simp
  show ?case by (simp add: a b c d calls_of_append)
qed

lemma test_loop_append:
  "test_loop api p i (xs @ ys) s =
     (case test_loop api p i xs s of
        (s1, evs1) \<Rightarrow>
          (case test_loop api p (i + length xs) ys s1 of
             (s2, evs2) \<Rightarrow> (s2, evs1 @ evs2)))"
  by (induction xs arbitrary: i s) (auto split: prod.splits)

lemma test_text_error:
  "predict api p (payload t) s = (Inl e, s') \<Longrightarrow>
   test_text api p i t s = (s', [Predict p (payload t), error_line i e])"
  by (simp add: test_text_def try_test_text_def)

lemma predict_loop_append:
  "predict_loop api p (xs @ ys) acc s =
     (case predict_loop api p xs acc s of
        (Inl e, s1, evs1) \<Rightarrow> (Inl e, s1, evs1)
      | (Inr outs, s1, evs1) \<Rightarrow>
          (case predict_loop api p ys outs s1 of
             (r, s2, evs2) \<Rightarrow> (r, s2, evs1 @ evs2)))"
  by (induction xs arbitrary: acc s) (auto split: prod.splits sum.splits)

lemma tag_phrase_Inr:
  "tag_phrase result t = Inr x \<Longrightarrow> \<exists>d rest. result = JList (JDict d # rest)"
  by (cases result rule: py_index0.cases; cases "hd (case result of JList xs \<Rightarrow> xs | _ \<Rightarrow> [])")
     (auto simp: tag_phrase_def split: sum.splits)

lemma tag_phrase_shaped:
  "tag_phrase (JList (JDict d # rest)) t = Inr (JList (JDict (AList.update ''phrase'' (JStr t) d) # rest))"
  by (simp add: tag_phrase_def)

lemma well_shapedE:
  "well_shaped r \<Longrightarrow> \<exists>d rest. r = Inr (JList (JDict d # rest))"
  by (cases r rule: well_shaped.cases) simp_all

lemma predict_loop_shaped:
  assumes "\<forall>r \<in> set (responses api p phrases s). well_shaped r"
  shows "\<exists>outs s' evs.
           predict_loop api p phrases acc s = (Inr (acc @ outs), s', evs) \<and>
           length outs = length phrases \<and>
           (\<forall>k<length phrases. \<exists>d rest.
              responses api p phrases s ! k = Inr (JList (JDict d # rest)) \<and>
              outs ! k = JList (JDict (AList.update ''phrase'' (JStr (phrases ! k)) d) # rest))"
  using assms
proof (induction phrases arbitrary: acc s)
  case Nil
  show ?case by simp
next
  case (Cons t ts)
  obtain r s1 where pr: "predict api p (payload t) s = (r, s1)"
    by (cases "predict api p (payload t) s")
  with Cons.prems have wr: "well_shaped r"
    and wrest: "\<forall>r\<in>set (responses api p ts s1). well_shaped r"
    by simp_all
  from wr obtain d rest where r: "r = Inr (JList (JDict d # rest))"
    using well_shapedE by blast
  let ?tagged = "JList (JDict (AList.update ''phrase'' (JStr t) d) # rest)"
  from Cons.IH [OF wrest, of "acc @ [?tagged]"]
  obtain outs s' evs where
    ih1: "predict_loop api p ts (acc @ [?tagged]) s1 = (Inr ((acc @ [?tagged]) @ outs), s', evs)"
    and ih2: "length outs = length ts"
    and ih3: "\<forall>k<length ts. \<exists>d rest.
              responses api p ts s1 ! k = Inr (JList (JDict d # rest)) \<and>
              outs ! k = JList (JDict (AList.update ''phrase'' (JStr (ts ! k)) d) # rest)"
    by blast
  have "predict_loop api p (t # ts) acc s = (Inr (acc @ ?tagged # outs), s', Predict p (payload t) # evs)"
    by (simp add: pr r tag_phrase_shaped ih1)
  moreover have "length (?tagged # outs) = length (t # ts)"
    by (simp add: ih2)
  moreover have "\<forall>k<length (t # ts). \<exists>d rest.
              responses api p (t # ts) s ! k = Inr (JList (JDict d # rest)) \<and>
              (?tagged # outs) ! k = JList (JDict (AList.update ''phrase'' (JStr ((t # ts) ! k)) d) # rest)"
  proof (intro allI impI)
    fix k assume "k < length (t # ts)"
    then show "\<exists>d rest.
              responses api p (t # ts) s ! k = Inr (JList (JDict d # rest)) \<and>
              (?tagged # outs) ! k = JList (JDict (AList.update ''phrase'' (JStr ((t # ts) ! k)) d) # rest)"
      using ih3 by (cases k) (simp_all add: pr r)
  qed
  ultimately show ?case by blast
qed

lemma predict_loop_completes:
  "predict_loop api p phrases acc s = (Inr outs, s', evs) \<Longrightarrow>
   \<forall>r \<in> set (responses api p phrases s). well_shaped r"
proof (induction phrases arbitrary: acc s evs)
  case Nil
  show ?case by simp
next
  case (Cons t ts)
  from Cons.prems obtain result s1 tagged evs' where
    pr: "predict api p (payload t) s = (Inr result, s1)"
    and tg: "tag_phrase result t = Inr tagged"
    and rest: "predict_loop api p ts (acc @ [tagged]) s1 = (Inr outs, s', evs')"
    by (auto split: prod.splits sum.splits)
  from tg obtain d rest' where "result = JList (JDict d # rest')"
    using tag_phrase_Inr by blast
  with pr Cons.IH [OF rest] show ?case by simp
qed

lemma scripted_create_role:
  "create_role scripted n d c q s =
     (case map_of (roles s) n of
        Some a \<Rightarrow> (Inl EntityAlreadyExistsException, s)
      | None \<Rightarrow> (Inr (RoleResponse (''arn:aws:iam::123456789012:role/'' @ n)),
                 s\<lparr>roles := (n, ''arn:aws:iam::123456789012:role/'' @ n) # roles s\<rparr>))"
  by (simp add: scripted_def)

lemma scripted_get_role:
  "get_role scripted n s =
     (case map_of (roles s) n of
        Some a \<Rightarrow> (Inr (RoleResponse a), s)
      | None \<Rightarrow> (Inl (OtherError ''NoSuchEntity''), s))"
  by (simp add: scripted_def)

lemma scripted_attach:
  "attach_role_policy scripted n q s =
     (case attach_results s of
        [] \<Rightarrow> (Inr (), s)
      | r # rs \<Rightarrow> (r, s\<lparr>attach_results := rs\<rparr>))"
  by (simp add: scripted_def)

lemma scripted_deploy: "deploy scripted m a s = (deploy_result s, s)"
  by (simp add: scripted_def)

lemma scripted_dumps: "json_dumps scripted j = ''{}''"
  by (simp add: scripted_def)

lemma scripted_registry: "role_registry scripted (\<lambda>s. map_of (roles s))"
  unfolding role_registry_def
  by (auto simp: scripted_create_role scripted_get_role scripted_attach
        split: option.splits list.splits)

lemma registry_created:
  "role_registry api known \<Longrightarrow> create_role api n d c q s = (Inr r, s') \<Longrightarrow>
   known s' n = Some (Role_Arn r)"
  unfolding role_registry_def by (elim conjE) auto

lemma registry_fetched:
  "role_registry api known \<Longrightarrow> get_role api n s = (Inr r, s') \<Longrightarrow>
   known s' n = Some (Role_Arn r)"
  unfolding role_registry_def by (elim conjE) auto

lemma registry_create_again:
  "role_registry api known \<Longrightarrow> known s n = Some a \<Longrightarrow>
   \<exists>s'. create_role api n d c q s = (Inl EntityAlreadyExistsException, s') \<and> known s' n = Some a"
  unfolding role_registry_def by (elim conjE) auto

lemma registry_fetch:
  "role_registry api known \<Longrightarrow> known s n = Some a \<Longrightarrow>
   \<exists>s'. get_role api n s = (Inr (RoleResponse a), s') \<and> known s' n = Some a"
  unfolding role_registry_def by (elim conjE) auto

lemma registry_attach:
  "role_registry api known \<Longrightarrow> known (snd (attach_role_policy api n q s)) n = known s n"
  unfolding role_registry_def by (elim conjE) auto

lemma attach_policy_state:
  "fst (attach_policy api q s) = snd (attach_role_policy api role_name q s)"
  by (auto simp: attach_policy_def split: prod.splits sum.splits)

lemma attach_policies_known:
  assumes "role_registry api known"
  shows "known (fst (attach_policies api ps s)) role_name = known s role_name"
proof (induction ps arbitrary: s)
  case Nil
  show ?case by simp
next
  case (Cons q qs)
  have keep: "\<And>s. known (snd (attach_role_policy api role_name q s)) role_name = known s role_name"
    by (rule registry_attach [OF assms])
  obtain s1 evs1 where a: "attach_policy api q s = (s1, evs1)"
    by (cases "attach_policy api q s")
  with attach_policy_state [of api q s] keep [of s] have k1: "known s1 role_name = known s role_name"
    by simp
  obtain s2 evs2 where b: "attach_policies api qs s1 = (s2, evs2)"
    by (cases "attach_policies api qs s1")
  with Cons.IH [of s1] have "known s2 role_name = known s1 role_name"
    by simp
  with k1 show ?case by (simp add: a b)
qed

lemma attach_policy_calls:
  "calls_of (snd (attach_policy api q s)) = [AttachRolePolicy role_name q]"
  by (auto simp: attach_policy_def calls_of_def split: prod.splits sum.splits)

lemma attach_policy_sleeps: "sleeps (snd (attach_policy api q s)) = []"
  by (auto simp: attach_policy_def split: prod.splits sum.splits)

lemma attach_policies_calls:
  "calls_of (snd (attach_policies api ps s)) = map (AttachRolePolicy role_name) ps"
proof (induction ps arbitrary: s)
  case Nil
  show ?case by (simp add: calls_of_def)
next
  case (Cons q qs)
  obtain s1 evs1 where a: "attach_policy api q s = (s1, evs1)"
    by (cases "attach_policy api q s")
  obtain s2 evs2 where b: "attach_policies api qs s1 = (s2, evs2)"
    by (cases "attach_policies api qs s1")
  from attach_policy_calls [of api q s] a have c: "calls_of evs1 = [AttachRolePolicy role_name q]"
    by simp
  from Cons.IH [of s1] b have d: "calls_of evs2 = map (AttachRolePolicy role_name) qs"
    by simp
  show ?case by (simp add: a b c d calls_of_append)
qed

lemma attach_policies_sleeps: "sleeps (snd (attach_policies api ps s)) = []"
proof (induction ps arbitrary: s)
  case Nil
  show ?case by simp
next
  case (Cons q qs)
  obtain s1 evs1 where a: "attach_policy api q s = (s1, evs1)"
    by (cases "attach_policy api q s")
  obtain s2 evs2 where b: "attach_policies api qs s1 = (s2, evs2)"
    by (cases "attach_policies api qs s1")
  from attach_policy_sleeps [of api q s] a have c: "sleeps evs1 = []" by simp
  from Cons.IH [of s1] b have d: "sleeps evs2 = []" by simp
  show ?case by (simp add: a b c d sleeps_append)
qed

lemma create_or_get_role_registers:
  assumes "role_registry api known"
      and "create_or_get_role api s = (Inr arn, s1, evs1)"
  shows "known s1 role_name = Some arn"
proof -
  let ?doc = "json_dumps api trust_policy"
  obtain r sa where c: "create_role api role_name ?doc role_description ''/'' s = (r, sa)"
    by (cases "create_role api role_name ?doc role_description ''/'' s")
  show ?thesis
  proof (cases r)
    case (Inr resp)
    with c assms(2) have "arn = Role_Arn resp" "s1 = sa"
      by (simp_all add: create_or_get_role_def Let_def)
    moreover from c Inr have "known sa role_name = Some (Role_Arn resp)"
      by (simp add: registry_created [OF assms(1)])
    ultimately show ?thesis by simp
  next
    case (Inl e)
    obtain r2 sb where g: "get_role api role_name sa = (r2, sb)"
      by (cases "get_role api role_name sa")
    from c Inl g assms(2) obtain resp where "r2 = Inr resp" "arn = Role_Arn resp" "s1 = sb"
      by (cases r2) (auto simp: create_or_get_role_def Let_def split: if_splits)
    moreover from g \<open>r2 = Inr resp\<close> have "known sb role_name = Some (Role_Arn resp)"
      by (simp add: registry_fetched [OF assms(1)])
    ultimately show ?thesis by simp
  qed
qed

lemma scripted_first_run:
  "create_sagemaker_execution_role scripted fresh =
     (Inr role_arn0, fresh\<lparr>roles := [(role_name, role_arn0)]\<rparr>,
      [Print [T ''Creating IAM role: '', T role_name],
       CreateRole role_name ''{}'' role_description ''/'',
       Print [check_mark, T '' Created role: '', T role_arn0], Sleep 10] @
      concat (map (\<lambda>q. [AttachRolePolicy role_name q,
                          Print [check_mark, T '' Attached policy: '', T q]]) required_policies))"
  by (simp add: create_sagemaker_execution_role_def create_or_get_role_def Let_def
        scripted_create_role scripted_dumps scripted_attach fresh_def role_arn0_def role_name_def
        required_policies_def attach_policy_def)

lemma deploy_failure:
  "deploy api (huggingface_model role_arn) deploy_call_args s = (Inl e, s') \<Longrightarrow>
   deploy_huggingface_model api role_arn s =
     (Inl e, s',
      deploy_banner @
      [Print [T ''Model ID: '', T ''ProsusAI/finbert''],
       Print [T ''Task: '', T ''text-classification'']] @
      deploy_announce @ [Deploy (huggingface_model role_arn) deploy_call_args])"
  by (simp add: deploy_huggingface_model_def hub_item_def hub_def Let_def)

lemma invoke_flow_stops:
  "predict_loop api p before [] s = (Inr outs, s1, evs1) \<Longrightarrow>
   predict api p (payload t) s1 = (Inl e, s2) \<Longrightarrow>
   invoke_flow api p (before @ t # after) s = (Inl e, s2, evs1 @ [Predict p (payload t)])"
  by (simp add: invoke_flow_def predict_loop_append)

section \<open>Invocation errors\<close>

text \<open>
  The in-deployment test flow isolates an invocation error to its input. It never raises
  and sends every text to the endpoint, in order, whatever the earlier invocations did;
  when the invocation of one text raises, that text contributes its call and its error
  line, and the texts before and after it are processed as they would be without it.
\<close>

lemma test_endpoint_runs_test_loop:
  "test_endpoint api p s =
     (Inr (), fst (test_loop api p 1 test_texts s),
      test_header @ snd (test_loop api p 1 test_texts s))"
  by (simp add: test_endpoint_def split: prod.splits)

lemma test_endpoint_sends_every_text:
  "calls_of (snd (snd (test_endpoint api p s))) = map (\<lambda>t. Predict p (payload t)) test_texts"
  by (simp add: test_endpoint_runs_test_loop calls_of_append test_loop_calls)
     (simp add: calls_of_def test_header_def)

lemma test_loop_isolates_error:
  assumes "test_loop api p i before s = (s1, evs1)"
      and "predict api p (payload t) s1 = (Inl e, s2)"
  shows "test_loop api p i (before @ t # after) s =
          (case test_loop api p (Suc (i + length before)) after s2 of
             (s3, evs3) \<Rightarrow>
               (s3, evs1 @ [Predict p (payload t), error_line (i + length before) e] @ evs3))"
proof -
  from assms(2) have "test_text api p (i + length before) t s1 =
               (s2, [Predict p (payload t), error_line (i + length before) e])"
    by (simp add: test_text_error)
  with assms(1) show ?thesis
    by (simp add: test_loop_append split: prod.splits)
qed

lemma sentiment_report:
  "test_text scripted demo_predictor i t
     (fresh\<lparr>predict_results :=
        Inr (JList [JDict [(''label'', JStr l), (''score'', JFloat x)]]) # rs\<rparr>) =
     (fresh\<lparr>predict_results := rs\<rparr>,
      [Predict demo_predictor (payload t), text_line i t,
       Print [T ''   Sentiment: '', V (JStr l), T '' (confidence: '', F3 (JFloat x), T '')'']])"
  by (simp add: test_text_def try_test_text_def report_result_def scripted_predict fresh_def)

lemma error_report:
  "test_text scripted demo_predictor i t (fresh\<lparr>predict_results := Inl e # rs\<rparr>) =
     (fresh\<lparr>predict_results := rs\<rparr>, [Predict demo_predictor (payload t), error_line i e])"
  by (simp add: test_text_def try_test_text_def scripted_predict fresh_def)

text \<open>The test flow run on its five texts with an endpoint that fails the second
  invocation only: an error line for the second text, a sentiment line for each of the
  other four.\<close>

lemma test_endpoint_second_fails:
  "test_endpoint scripted demo_predictor second_of_five_fails =
     (Inr (), fresh,
      test_header @
      [Predict demo_predictor (payload (test_texts ! 0)), text_line 1 (test_texts ! 0),
       Print [T ''   Sentiment: '', V (JStr ''positive''), T '' (confidence: '',
              F3 (JFloat 0.87), T '')''],
       Predict demo_predictor (payload (test_texts ! 1)),
       error_line 2 (OtherError ''ModelError''),
       Predict demo_predictor (payload (test_texts ! 2)), text_line 3 (test_texts ! 2),
       Print [T ''   Sentiment: '', V (JStr ''positive''), T '' (confidence: '',
              F3 (JFloat 0.87), T '')''],
       Predict demo_predictor (payload (test_texts ! 3)), text_line 4 (test_texts ! 3),
       Print [T ''   Sentiment: '', V (JStr ''negative''), T '' (confidence: '',
              F3 (JFloat 0.95), T '')''],
       Predict demo_predictor (payload (test_texts ! 4)), text_line 5 (test_texts ! 4),
       Print [T ''   Sentiment: '', V (JStr ''positive''), T '' (confidence: '',
              F3 (JFloat 0.87), T '')'']])"
proof -
  have five: "test_texts = [test_texts ! 0, test_texts ! 1, test_texts ! 2, test_texts ! 3,
                            test_texts ! 4]"
    by (simp add: test_texts_def)
  have idx: "Suc (Suc 0) = 2" "Suc (Suc (Suc 0)) = 3" "Suc (Suc (Suc (Suc 0))) = 4"
    "Suc (Suc (Suc (Suc (Suc 0)))) = 5"
    by simp_all
  have empty: "fresh\<lparr>predict_results := []\<rparr> = fresh"
    by (simp add: fresh_def)
  have "test_loop scripted demo_predictor 1
          [test_texts ! 0, test_texts ! 1, test_texts ! 2, test_texts ! 3, test_texts ! 4]
          second_of_five_fails =
        (fresh,
         [Predict demo_predictor (payload (test_texts ! 0)), text_line 1 (test_texts ! 0),
          Print [T ''   Sentiment: '', V (JStr ''positive''), T '' (confidence: '',
                 F3 (JFloat 0.87), T '')''],
          Predict demo_predictor (payload (test_texts ! 1)),
          error_line 2 (OtherError ''ModelError''),
          Predict demo_predictor (payload (test_texts ! 2)), text_line 3 (test_texts ! 2),
          Print [T ''   Sentiment: '', V (JStr ''positive''), T '' (confidence: '',
                 F3 (JFloat 0.87), T '')''],
          Predict demo_predictor (payload (test_texts ! 3)), text_line 4 (test_texts ! 3),
          Print [T ''   Sentiment: '', V (JStr ''negative''), T '' (confidence: '',
                 F3 (JFloat 0.95), T '')''],
          Predict demo_predictor (payload (test_texts ! 4)), text_line 5 (test_texts ! 4),
          Print [T ''   Sentiment: '', V (JStr ''positive''), T '' (confidence: '',
                 F3 (JFloat 0.87), T '')'']])"
    unfolding second_of_five_fails_def positive_def negative_def
    by (simp add: sentiment_report error_report empty idx del: One_nat_def)
  with five show ?thesis
    by (simp add: test_endpoint_runs_test_loop)
qed

text \<open>
  Claim C1 (a defect of the standalone flow). The claim asks of both flows that an
  invocation error on one input is reported for that input and that every other input of
  the batch still yields its result. The test flow does so, as shown above. The
  standalone flow does not: its prediction loop has no \<^verbatim>\<open>try\<close>. Run on the script's own
  three inputs with an endpoint that fails the second invocation, \<^verbatim>\<open>finbert-invoke.py\<close>
  ends with that exception: the third input is never sent (its response is still on the
  tape) and nothing is printed, neither a failure for the second input nor the result of
  the first.
\<close>

theorem invoke_script_stops_at_failed_invocation:
  "invoke_script scripted second_fails =
     (Inl (OtherError ''ModelError''), fresh\<lparr>predict_results := [Inr negative]\<rparr>,
      [Predict invoke_predictor (payload (inputs ! 0)),
       Predict invoke_predictor (payload (inputs ! 1))])"
  by (simp add: invoke_script_def invoke_flow_def inputs_def second_fails_def fresh_def
        positive_def scripted_predict tag_phrase_def)

section \<open>The first entry of a response is the result\<close>

text \<open>
  Claim C3. When the endpoint answers a text with a non-empty list whose first entry is
  an object carrying a string under \<^verbatim>\<open>label\<close> and a float under \<^verbatim>\<open>score\<close>, both flows
  take that first entry as the result: the test flow prints the text line and the
  sentiment line with that label and score, and the standalone flow collects the response
  with the text stored under \<^verbatim>\<open>phrase\<close> in its first entry and prints the phrase, the
  score and the label. The witness is the canned response
  \<^verbatim>\<open>[{"label":"positive","score":0.87}]\<close> for the text "Stock price surged ...".
\<close>

theorem first_entry_is_the_result:
  assumes "predict api p (payload text) s = (Inr (JList (JDict d # rest)), s')"
      and "map_of d ''label'' = Some (JStr l)"
      and "map_of d ''score'' = Some (JFloat x)"
  shows "test_text api p i text s =
           (s', [Predict p (payload text), text_line i text,
                 Print [T ''   Sentiment: '', V (JStr l), T '' (confidence: '',
                        F3 (JFloat x), T '')'']])
       \<and> invoke_flow api p [text] s =
           (Inr [JList (JDict (AList.update ''phrase'' (JStr text) d) # rest)], s',
            [Predict p (payload text),
             Print [T ''Phrase: '', V (JStr text), T '', Score: '', V (JFloat x),
                    T '', Label: '', V (JStr l)]])"
  using assms
  by (simp add: test_text_def try_test_text_def report_result_def invoke_flow_def
        tag_phrase_def phrase_line_def update_conv')

theorem first_entry_is_the_result_witness:
  "test_text scripted demo_predictor 5 surged (fresh\<lparr>predict_results := [Inr positive]\<rparr>) =
     (fresh,
      [Predict demo_predictor (payload surged),
       Print [T nl, N 5, T ''. Text: '', T dq, T surged, T '''', T dq],
       Print [T ''   Sentiment: '', V (JStr ''positive''), T '' (confidence: '',
              F3 (JFloat 0.87), T '')'']])
   \<and> invoke_flow scripted demo_predictor [surged] (fresh\<lparr>predict_results := [Inr positive]\<rparr>) =
     (Inr [JList [JDict [(''label'', JStr ''positive''), (''score'', JFloat 0.87),
                         (''phrase'', JStr surged)]]],
      fresh,
      [Predict demo_predictor (payload surged),
       Print [T ''Phrase: '', V (JStr surged), T '', Score: '', V (JFloat 0.87),
              T '', Label: '', V (JStr ''positive'')]])"
  using first_entry_is_the_result
    [where api = scripted and p = demo_predictor and ?text = surged and i = 5
       and s = "fresh\<lparr>predict_results := [Inr positive]\<rparr>" and s' = fresh
       and d = "[(''label'', JStr ''positive''), (''score'', JFloat 0.87)]" and rest = "[]"
       and l = "''positive''" and x = "0.87"]
  by (simp add: scripted_predict fresh_def positive_def text_line_def surged_def)

text \<open>
  Claim C8. In the test flow a response that is not a list, or is the empty list, is
  never indexed: the iteration raises nothing and prints the text line followed by the
  raw response.
\<close>

theorem test_flow_guards_first_entry:
  assumes "predict api p (payload text) s = (Inr result, s')"
      and "(\<forall>xs. result \<noteq> JList xs) \<or> result = JList []"
  shows "report_result i text result =
           (Inr (), [text_line i text, Print [T ''   Result: '', V result]])
       \<and> test_text api p i text s =
           (s', [Predict p (payload text), text_line i text, Print [T ''   Result: '', V result]])"
  using assms
  by (auto simp: report_result_def test_text_def try_test_text_def split: json.splits list.splits)

theorem test_flow_guards_first_entry_witness:
  "test_text scripted demo_predictor 1 surged (fresh\<lparr>predict_results := [Inr (JList [])]\<rparr>) =
     (fresh, [Predict demo_predictor (payload surged), text_line 1 surged,
              Print [T ''   Result: '', V (JList [])]])
   \<and> test_text scripted demo_predictor 2 surged
       (fresh\<lparr>predict_results := [Inr (JDict [(''error'', JStr ''busy'')])]\<rparr>) =
     (fresh, [Predict demo_predictor (payload surged), text_line 2 surged,
              Print [T ''   Result: '', V (JDict [(''error'', JStr ''busy'')])]])"
  using test_flow_guards_first_entry
    [where api = scripted and p = demo_predictor and ?text = surged and i = 1
       and s = "fresh\<lparr>predict_results := [Inr (JList [])]\<rparr>" and s' = fresh
       and result = "JList []"]
    test_flow_guards_first_entry
    [where api = scripted and p = demo_predictor and ?text = surged and i = 2
       and s = "fresh\<lparr>predict_results := [Inr (JDict [(''error'', JStr ''busy'')])]\<rparr>"
       and s' = fresh and result = "JDict [(''error'', JStr ''busy'')]"]
  by (simp add: scripted_predict fresh_def)

text \<open>
  Claim C9. In the test flow \<^verbatim>\<open>.get\<close> on a first entry that is an object never raises; a
  missing \<^verbatim>\<open>label\<close> is read as \<^verbatim>\<open>'Unknown'\<close> and a missing \<^verbatim>\<open>score\<close> as \<^verbatim>\<open>0.0\<close>, and the
  sentiment line is printed with these defaults.
\<close>

theorem missing_keys_take_defaults:
  "(\<forall>k dflt. \<exists>v. py_get (JDict d) k dflt = Inr v)
   \<and> (map_of d ''label'' = None \<longrightarrow>
        py_get (JDict d) ''label'' (JStr ''Unknown'') = Inr (JStr ''Unknown''))
   \<and> (map_of d ''score'' = None \<longrightarrow>
        py_get (JDict d) ''score'' (JFloat 0.0) = Inr (JFloat 0.0))
   \<and> (map_of d ''label'' = None \<and> map_of d ''score'' = None \<longrightarrow>
        report_result i text (JList (JDict d # rest)) =
          (Inr (), [text_line i text,
                    Print [T ''   Sentiment: '', V (JStr ''Unknown''), T '' (confidence: '',
                           F3 (JFloat 0.0), T '')'']]))
   \<and> (map_of d ''label'' = None \<and> map_of d ''score'' = Some (JFloat x) \<longrightarrow>
        report_result i text (JList (JDict d # rest)) =
          (Inr (), [text_line i text,
                    Print [T ''   Sentiment: '', V (JStr ''Unknown''), T '' (confidence: '',
                           F3 (JFloat x), T '')'']]))
   \<and> (map_of d ''label'' = Some l \<and> map_of d ''score'' = None \<longrightarrow>
        report_result i text (JList (JDict d # rest)) =
          (Inr (), [text_line i text,
                    Print [T ''   Sentiment: '', V l, T '' (confidence: '',
                           F3 (JFloat 0.0), T '')'']]))"
  by (simp add: report_result_def)

theorem missing_keys_take_defaults_witness:
  "report_result 1 surged (JList [JDict []]) =
     (Inr (), [text_line 1 surged,
               Print [T ''   Sentiment: '', V (JStr ''Unknown''), T '' (confidence: '',
                      F3 (JFloat 0.0), T '')'']])
   \<and> report_result 1 surged (JList [JDict [(''score'', JFloat 0.5)]]) =
     (Inr (), [text_line 1 surged,
               Print [T ''   Sentiment: '', V (JStr ''Unknown''), T '' (confidence: '',
                      F3 (JFloat 0.5), T '')'']])
   \<and> report_result 1 surged (JList [JDict [(''label'', JStr ''neutral'')]]) =
     (Inr (), [text_line 1 surged,
               Print [T ''   Sentiment: '', V (JStr ''neutral''), T '' (confidence: '',
                      F3 (JFloat 0.0), T '')'']])"
  using missing_keys_take_defaults [where d = "[]" and i = 1 and ?text = surged and rest = "[]"]
    missing_keys_take_defaults
      [where d = "[(''score'', JFloat 0.5)]" and i = 1 and ?text = surged and rest = "[]"
         and x = "0.5"]
    missing_keys_take_defaults
      [where d = "[(''label'', JStr ''neutral'')]" and i = 1 and ?text = surged and rest = "[]"
         and l = "JStr ''neutral''"]
  by simp

text \<open>
  Claim C10. In the standalone flow, when every invocation returns a response in the
  documented shape (a non-empty list whose first entry is an object), the prediction loop
  completes, \<^verbatim>\<open>outputs\<close> has one record per input in the order of the inputs, and the
  record at position \<open>k\<close> is the \<open>k\<close>-th response with the \<open>k\<close>-th input stored under
  \<^verbatim>\<open>phrase\<close> in its first entry. (By \<open>predict_loop_completes\<close> these are the only
  responses with which the loop completes.)
\<close>

theorem outputs_follow_inputs:
  assumes "\<forall>r \<in> set (responses api p phrases s). well_shaped r"
  shows "\<exists>outs s' evs.
           predict_loop api p phrases [] s = (Inr outs, s', evs) \<and>
           length outs = length phrases \<and>
           (\<forall>k<length phrases. \<exists>d rest.
              responses api p phrases s ! k = Inr (JList (JDict d # rest)) \<and>
              outs ! k = JList (JDict (AList.update ''phrase'' (JStr (phrases ! k)) d) # rest) \<and>
              py_index0 (outs ! k) = Inr (JDict (AList.update ''phrase'' (JStr (phrases ! k)) d)) \<and>
              py_getitem (JDict (AList.update ''phrase'' (JStr (phrases ! k)) d)) ''phrase'' =
                Inr (JStr (phrases ! k)))"
proof -
  from predict_loop_shaped [OF assms, of "[]"]
  obtain outs s' evs where
    a: "predict_loop api p phrases [] s = (Inr outs, s', evs)"
    and b: "length outs = length phrases"
    and c: "\<forall>k<length phrases. \<exists>d rest.
              responses api p phrases s ! k = Inr (JList (JDict d # rest)) \<and>
              outs ! k = JList (JDict (AList.update ''phrase'' (JStr (phrases ! k)) d) # rest)"
    by auto
  have "\<forall>k<length phrases. \<exists>d rest.
              responses api p phrases s ! k = Inr (JList (JDict d # rest)) \<and>
              outs ! k = JList (JDict (AList.update ''phrase'' (JStr (phrases ! k)) d) # rest) \<and>
              py_index0 (outs ! k) = Inr (JDict (AList.update ''phrase'' (JStr (phrases ! k)) d)) \<and>
              py_getitem (JDict (AList.update ''phrase'' (JStr (phrases ! k)) d)) ''phrase'' =
                Inr (JStr (phrases ! k))"
  proof (intro allI impI)
    fix k assume "k < length phrases"
    with c obtain d rest where
      "responses api p phrases s ! k = Inr (JList (JDict d # rest))"
      "outs ! k = JList (JDict (AList.update ''phrase'' (JStr (phrases ! k)) d) # rest)"
      by blast
    then show "\<exists>d rest.
              responses api p phrases s ! k = Inr (JList (JDict d # rest)) \<and>
              outs ! k = JList (JDict (AList.update ''phrase'' (JStr (phrases ! k)) d) # rest) \<and>
              py_index0 (outs ! k) = Inr (JDict (AList.update ''phrase'' (JStr (phrases ! k)) d)) \<and>
              py_getitem (JDict (AList.update ''phrase'' (JStr (phrases ! k)) d)) ''phrase'' =
                Inr (JStr (phrases ! k))"
      by (simp add: update_conv')
  qed
  with a b show ?thesis by blast
qed

theorem outputs_follow_inputs_witness:
  "responses scripted invoke_predictor inputs all_answer =
     [Inr positive, Inr negative, Inr positive]
   \<and> fst (predict_loop scripted invoke_predictor inputs [] all_answer) =
       Inr [JList [JDict [(''label'', JStr ''positive''), (''score'', JFloat 0.87),
                          (''phrase'', JStr (inputs ! 0))]],
            JList [JDict [(''label'', JStr ''negative''), (''score'', JFloat 0.95),
                          (''phrase'', JStr (inputs ! 1))]],
            JList [JDict [(''label'', JStr ''positive''), (''score'', JFloat 0.87),
                          (''phrase'', JStr (inputs ! 2))]]]"
  using outputs_follow_inputs
    [where api = scripted and p = invoke_predictor and phrases = inputs and s = all_answer]
  by (simp add: inputs_def all_answer_def fresh_def positive_def negative_def scripted_predict
        tag_phrase_def)

section \<open>The role step\<close>

text \<open>
  Claim C2. With an identity provider that keeps its role registry (\<open>role_registry\<close>),
  a run of the role step that returned an identifier can be followed by a second run: in
  it \<^verbatim>\<open>create_role\<close> raises \<^verbatim>\<open>EntityAlreadyExistsException\<close>, which is caught, the role
  is fetched with \<^verbatim>\<open>get_role\<close>, and the run returns the same identifier and raises
  nothing. The role stays registered, so the same holds for every later run.
\<close>

theorem role_step_idempotent:
  assumes "role_registry api known"
      and "create_sagemaker_execution_role api s = (Inr arn, s1, evs1)"
  shows "\<exists>sa sb s2 evs2.
           create_role api role_name (json_dumps api trust_policy) role_description ''/'' s1 =
             (Inl EntityAlreadyExistsException, sa) \<and>
           get_role api role_name sa = (Inr (RoleResponse arn), sb) \<and>
           create_sagemaker_execution_role api s1 = (Inr arn, s2, evs2) \<and>
           known s2 role_name = Some arn"
proof -
  let ?doc = "json_dumps api trust_policy"
  from assms(2) obtain s0 evs0 where
    first: "create_or_get_role api s = (Inr arn, s0, evs0)"
    and s1: "s1 = fst (attach_policies api required_policies s0)"
    by (auto simp: create_sagemaker_execution_role_def split: prod.splits sum.splits)
  from create_or_get_role_registers [OF assms(1) first] have "known s0 role_name = Some arn" .
  with attach_policies_known [OF assms(1), of required_policies s0] s1
  have k1: "known s1 role_name = Some arn" by simp
  from registry_create_again [OF assms(1) k1, of ?doc role_description "''/''"] obtain sa where
    c: "create_role api role_name ?doc role_description ''/'' s1 = (Inl EntityAlreadyExistsException, sa)"
    and ka: "known sa role_name = Some arn"
    by auto
  from registry_fetch [OF assms(1) ka] obtain sb where
    g: "get_role api role_name sa = (Inr (RoleResponse arn), sb)"
    and kb: "known sb role_name = Some arn"
    by auto
  obtain s2 evs2 where at: "attach_policies api required_policies sb = (s2, evs2)"
    by (cases "attach_policies api required_policies sb")
  with attach_policies_known [OF assms(1), of required_policies sb] kb
  have k2: "known s2 role_name = Some arn" by simp
  have "\<exists>evs. create_sagemaker_execution_role api s1 = (Inr arn, s2, evs)"
    by (simp add: create_sagemaker_execution_role_def create_or_get_role_def Let_def c g at)
  with c g k2 show ?thesis by blast
qed

theorem role_step_idempotent_witness:
  "role_registry scripted (\<lambda>s. map_of (roles s))
   \<and> fst (create_sagemaker_execution_role scripted fresh) = Inr role_arn0
   \<and> fst (create_sagemaker_execution_role scripted (fresh\<lparr>roles := [(role_name, role_arn0)]\<rparr>)) =
       Inr role_arn0"
  using role_step_idempotent
    [OF scripted_registry scripted_first_run]
  by (auto simp: scripted_registry scripted_first_run)

text \<open>
  Claim C7. The role step sleeps exactly when \<^verbatim>\<open>create_role\<close> succeeded, once and for
  10 seconds. When the role is created, it is created under the role name with the
  serialised trust policy, and the creation is followed by the sleep and no fetch; when
  creation reports that the role exists, the role is fetched and there is no sleep.
\<close>

theorem wait_exactly_when_created:
  "sleeps (snd (snd (create_sagemaker_execution_role api s))) =
     (case fst (create_role api role_name (json_dumps api trust_policy) role_description ''/'' s) of
        Inr response \<Rightarrow> [10]
      | Inl e \<Rightarrow> [])
   \<and> (create_role api role_name (json_dumps api trust_policy) role_description ''/'' s =
         (Inr r, s1) \<longrightarrow>
       create_or_get_role api s =
         (Inr (Role_Arn r), s1,
          [Print [T ''Creating IAM role: '', T role_name],
           CreateRole role_name (json_dumps api trust_policy) role_description ''/'',
           Print [check_mark, T '' Created role: '', T (Role_Arn r)],
           Sleep 10]))
   \<and> (create_role api role_name (json_dumps api trust_policy) role_description ''/'' s =
         (Inl EntityAlreadyExistsException, s1) \<and>
       get_role api role_name s1 = (Inr r', s2) \<longrightarrow>
       create_or_get_role api s =
         (Inr (Role_Arn r'), s2,
          [Print [T ''Creating IAM role: '', T role_name],
           CreateRole role_name (json_dumps api trust_policy) role_description ''/'',
           Print [T ''Role '', T role_name, T '' already exists, using existing role''],
           GetRole role_name]))"
proof (intro conjI impI)
  let ?doc = "json_dumps api trust_policy"
  obtain r0 sa where c: "create_role api role_name ?doc role_description ''/'' s = (r0, sa)"
    by (cases "create_role api role_name ?doc role_description ''/'' s")
  obtain r2 sb where g: "get_role api role_name sa = (r2, sb)"
    by (cases "get_role api role_name sa")
  have at: "\<And>s' x1 x2. attach_policies api required_policies s' = (x1, x2) \<Longrightarrow> sleeps x2 = []"
    using attach_policies_sleeps [of api required_policies] by (metis snd_conv)
  show "sleeps (snd (snd (create_sagemaker_execution_role api s))) =
     (case fst (create_role api role_name ?doc role_description ''/'' s) of
        Inr response \<Rightarrow> [10]
      | Inl e \<Rightarrow> [])"
    by (cases r0; cases r2)
       (auto simp: create_sagemaker_execution_role_def create_or_get_role_def Let_def c g
          check_mark_def sleeps_append at split: prod.splits)
qed (simp_all add: create_or_get_role_def Let_def)

theorem wait_exactly_when_created_witness:
  "sleeps (snd (snd (create_sagemaker_execution_role scripted fresh))) = [10]
   \<and> sleeps (snd (snd (create_sagemaker_execution_role scripted
        (fresh\<lparr>roles := [(role_name, role_arn0)]\<rparr>)))) = []
   \<and> create_or_get_role scripted fresh =
       (Inr role_arn0, fresh\<lparr>roles := [(role_name, role_arn0)]\<rparr>,
        [Print [T ''Creating IAM role: '', T role_name],
         CreateRole role_name ''{}'' role_description ''/'',
         Print [check_mark, T '' Created role: '', T role_arn0],
         Sleep 10])
   \<and> create_or_get_role scripted (fresh\<lparr>roles := [(role_name, role_arn0)]\<rparr>) =
       (Inr role_arn0, fresh\<lparr>roles := [(role_name, role_arn0)]\<rparr>,
        [Print [T ''Creating IAM role: '', T role_name],
         CreateRole role_name ''{}'' role_description ''/'',
         Print [T ''Role '', T role_name, T '' already exists, using existing role''],
         GetRole role_name])"
  using wait_exactly_when_created
      [where api = scripted and s = fresh and r = "RoleResponse role_arn0"
         and ?s1.0 = "fresh\<lparr>roles := [(role_name, role_arn0)]\<rparr>"]
    wait_exactly_when_created
      [where api = scripted and s = "fresh\<lparr>roles := [(role_name, role_arn0)]\<rparr>"
         and r' = "RoleResponse role_arn0"
         and ?s1.0 = "fresh\<lparr>roles := [(role_name, role_arn0)]\<rparr>"
         and ?s2.0 = "fresh\<lparr>roles := [(role_name, role_arn0)]\<rparr>"]
  by (simp add: scripted_create_role scripted_get_role scripted_dumps fresh_def role_arn0_def
        role_name_def)

text \<open>
  Claim C4. Once the role identifier is known, the role step returns it whatever the
  attachments do: the loop calls \<^verbatim>\<open>attach_role_policy\<close> once for each required policy, in
  order (and so for any list of policies), and an iteration has no way to raise. A
  successful attachment prints the confirmation, \<^verbatim>\<open>LimitExceededException\<close> (what the
  code treats as already attached) prints a plain notice, and any other exception prints
  a warning with the error.
\<close>

theorem attachment_failures_do_not_abort:
  "(create_or_get_role api s = (Inr arn, s1, evs1) \<longrightarrow>
      create_sagemaker_execution_role api s =
        (Inr arn, fst (attach_policies api required_policies s1),
         evs1 @ snd (attach_policies api required_policies s1)))
   \<and> calls_of (snd (attach_policies api policies s)) = map (AttachRolePolicy role_name) policies
   \<and> (attach_role_policy api role_name q s = (Inr (), s') \<longrightarrow>
        attach_policy api q s =
          (s', [AttachRolePolicy role_name q,
                Print [check_mark, T '' Attached policy: '', T q]]))
   \<and> (attach_role_policy api role_name q s = (Inl LimitExceededException, s') \<longrightarrow>
        attach_policy api q s =
          (s', [AttachRolePolicy role_name q, Print [T ''Policy already attached: '', T q]]))
   \<and> (attach_role_policy api role_name q s = (Inl e, s') \<and> e \<noteq> LimitExceededException \<longrightarrow>
        attach_policy api q s =
          (s', [AttachRolePolicy role_name q,
                Print [T ''Warning: Could not attach policy '', T q, T '': '', E e]]))"
proof (intro conjI impI)
  show "calls_of (snd (attach_policies api policies s)) = map (AttachRolePolicy role_name) policies"
    by (rule attach_policies_calls)
next
  assume "create_or_get_role api s = (Inr arn, s1, evs1)"
  then show "create_sagemaker_execution_role api s =
        (Inr arn, fst (attach_policies api required_policies s1),
         evs1 @ snd (attach_policies api required_policies s1))"
    by (simp add: create_sagemaker_execution_role_def split: prod.splits)
qed (simp_all add: attach_policy_def)

theorem attachment_failures_do_not_abort_witness:
  "create_sagemaker_execution_role scripted attach_trouble =
     (Inr role_arn0, fresh\<lparr>roles := [(role_name, role_arn0)]\<rparr>,
      [Print [T ''Creating IAM role: '', T role_name],
       CreateRole role_name ''{}'' role_description ''/'',
       Print [check_mark, T '' Created role: '', T role_arn0],
       Sleep 10,
       AttachRolePolicy role_name (required_policies ! 0),
       Print [T ''Policy already attached: '', T (required_policies ! 0)],
       AttachRolePolicy role_name (required_policies ! 1),
       Print [T ''Warning: Could not attach policy '', T (required_policies ! 1), T '': '',
              E (OtherError ''AccessDenied'')],
       AttachRolePolicy role_name (required_policies ! 2),
       Print [check_mark, T '' Attached policy: '', T (required_policies ! 2)]])"
proof -
  let ?s1 = "attach_trouble\<lparr>roles := [(role_name, role_arn0)]\<rparr>"
  let ?evs1 = "[Print [T ''Creating IAM role: '', T role_name],
       CreateRole role_name ''{}'' role_description ''/'',
       Print [check_mark, T '' Created role: '', T role_arn0],
       Sleep 10]"
  have a: "create_or_get_role scripted attach_trouble = (Inr role_arn0, ?s1, ?evs1)"
    by (simp add: create_or_get_role_def Let_def scripted_create_role scripted_dumps
          attach_trouble_def fresh_def role_arn0_def role_name_def)
  from attachment_failures_do_not_abort
    [where api = scripted and s = attach_trouble and arn = role_arn0 and ?s1.0 = ?s1
       and ?evs1.0 = ?evs1 and policies = "[]" and q = "required_policies ! 0"
       and s' = "fresh\<lparr>attach_results := [Inl (OtherError ''AccessDenied'')]\<rparr>"
       and e = "LimitExceededException"] a
  show ?thesis
    by (simp add: scripted_attach attach_trouble_def fresh_def required_policies_def
          attach_policy_def)
qed

section \<open>Deployment\<close>

text \<open>
  Claim C6. The deploy step makes exactly one SDK call, \<^verbatim>\<open>deploy\<close> with
  \<^verbatim>\<open>endpoint_name=None\<close>; when the provider returns a predictor, the step returns that very
  predictor, whose \<open>endpoint_name\<close> is therefore the name the provider generated, and
  prints that name last.
\<close>

theorem deploy_leaves_name_to_provider:
  "endpoint_name_arg deploy_call_args = None
   \<and> calls_of (snd (snd (deploy_huggingface_model api role_arn s))) =
       [Deploy (huggingface_model role_arn) deploy_call_args]
   \<and> (deploy api (huggingface_model role_arn) deploy_call_args s = (Inr p, s') \<longrightarrow>
        fst (deploy_huggingface_model api role_arn s) = Inr p \<and>
        fst (snd (deploy_huggingface_model api role_arn s)) = s' \<and>
        last (snd (snd (deploy_huggingface_model api role_arn s))) =
          Print [check_mark, T '' Endpoint name: '', T (endpoint_name p)])"
  by (auto simp: deploy_call_args_def deploy_huggingface_model_def hub_item_def hub_def Let_def
        calls_of_def deploy_banner_def deploy_announce_def check_mark_def
        split: prod.splits sum.splits)

theorem deploy_leaves_name_to_provider_witness:
  "fst (deploy_huggingface_model scripted role_arn0 fresh) = Inr demo_predictor
   \<and> last (snd (snd (deploy_huggingface_model scripted role_arn0 fresh))) =
       Print [check_mark, T '' Endpoint name: '', T ''huggingface-pytorch-inference-0001'']"
  using deploy_leaves_name_to_provider
    [where api = scripted and role_arn = role_arn0 and s = fresh and s' = fresh
       and p = demo_predictor]
  by (simp add: scripted_deploy fresh_def demo_predictor_def)

text \<open>
  Claim C5. When the role step has returned an identifier and \<^verbatim>\<open>deploy\<close> raises,
  \<^verbatim>\<open>main\<close> ends with that same exception after printing the two failure lines. The
  provider is left in the state of the failed \<^verbatim>\<open>deploy\<close> call, and the SDK calls of the
  whole run are those of the role step followed by the single \<^verbatim>\<open>deploy\<close>: nothing is
  retried and nothing is undone.
\<close>

theorem deployment_error_is_fatal:
  assumes "create_sagemaker_execution_role api s = (Inr role_arn, s1, evs1)"
      and "deploy api (huggingface_model role_arn) deploy_call_args s1 = (Inl e, s2)"
  shows "main api s =
           (Inl e, s2,
            main_banner @ step1_line # evs1 @ step2_line role_arn #
            deploy_banner @
            [Print [T ''Model ID: '', T ''ProsusAI/finbert''],
             Print [T ''Task: '', T ''text-classification'']] @
            deploy_announce @ [Deploy (huggingface_model role_arn) deploy_call_args] @
            failure_lines e)
       \<and> calls_of (snd (snd (main api s))) =
           calls_of evs1 @ [Deploy (huggingface_model role_arn) deploy_call_args]"
proof -
  have m: "main api s =
           (Inl e, s2,
            main_banner @ step1_line # evs1 @ step2_line role_arn #
            deploy_banner @
            [Print [T ''Model ID: '', T ''ProsusAI/finbert''],
             Print [T ''Task: '', T ''text-classification'']] @
            deploy_announce @ [Deploy (huggingface_model role_arn) deploy_call_args] @
            failure_lines e)"
    by (simp add: main_def main_try_def assms(1) deploy_failure [OF assms(2)])
  have "calls_of (snd (snd (main api s))) =
           calls_of evs1 @ [Deploy (huggingface_model role_arn) deploy_call_args]"
    unfolding m
    by (simp add: calls_of_def main_banner_def step1_line_def step2_line_def deploy_banner_def
          deploy_announce_def failure_lines_def)
  with m show ?thesis by simp
qed

theorem deployment_error_is_fatal_witness:
  "fst (main scripted deploy_refused) = Inl (OtherError ''ResourceLimitExceeded'')
   \<and> fst (snd (main scripted deploy_refused)) = deploy_refused\<lparr>roles := [(role_name, role_arn0)]\<rparr>
   \<and> calls_of (snd (snd (main scripted deploy_refused))) =
       [CreateRole role_name ''{}'' role_description ''/'',
        AttachRolePolicy role_name ''arn:aws:iam::aws:policy/AmazonSageMakerFullAccess'',
        AttachRolePolicy role_name ''arn:aws:iam::aws:policy/AmazonS3FullAccess'',
        AttachRolePolicy role_name ''arn:aws:iam::aws:policy/AmazonEC2ContainerRegistryReadOnly'',
        Deploy (huggingface_model role_arn0) deploy_call_args]"
proof -
  let ?s1 = "deploy_refused\<lparr>roles := [(role_name, role_arn0)]\<rparr>"
  let ?evs1 = "[Print [T ''Creating IAM role: '', T role_name],
       CreateRole role_name ''{}'' role_description ''/'',
       Print [check_mark, T '' Created role: '', T role_arn0], Sleep 10,
       AttachRolePolicy role_name ''arn:aws:iam::aws:policy/AmazonSageMakerFullAccess'',
       Print [check_mark, T '' Attached policy: '',
              T ''arn:aws:iam::aws:policy/AmazonSageMakerFullAccess''],
       AttachRolePolicy role_name ''arn:aws:iam::aws:policy/AmazonS3FullAccess'',
       Print [check_mark, T '' Attached policy: '',
              T ''arn:aws:iam::aws:policy/AmazonS3FullAccess''],
       AttachRolePolicy role_name ''arn:aws:iam::aws:policy/AmazonEC2ContainerRegistryReadOnly'',
       Print [check_mark, T '' Attached policy: '',
              T ''arn:aws:iam::aws:policy/AmazonEC2ContainerRegistryReadOnly'']]"
  have a: "create_sagemaker_execution_role scripted deploy_refused = (Inr role_arn0, ?s1, ?evs1)"
    by (simp add: create_sagemaker_execution_role_def create_or_get_role_def Let_def
        scripted_create_role scripted_dumps scripted_attach deploy_refused_def fresh_def
        role_arn0_def role_name_def required_policies_def attach_policy_def)
  have b: "deploy scripted (huggingface_model role_arn0) deploy_call_args ?s1 =
             (Inl (OtherError ''ResourceLimitExceeded''), ?s1)"
    by (simp add: scripted_deploy deploy_refused_def)
  have c: "calls_of ?evs1 =
       [CreateRole role_name ''{}'' role_description ''/'',
        AttachRolePolicy role_name ''arn:aws:iam::aws:policy/AmazonSageMakerFullAccess'',
        AttachRolePolicy role_name ''arn:aws:iam::aws:policy/AmazonS3FullAccess'',
        AttachRolePolicy role_name ''arn:aws:iam::aws:policy/AmazonEC2ContainerRegistryReadOnly'']"
    by (simp add: calls_of_def check_mark_def)
  note fatal = deployment_error_is_fatal [OF a b]
  have "fst (main scripted deploy_refused) = Inl (OtherError ''ResourceLimitExceeded'')"
    by (simp add: fatal [THEN conjunct1])
  moreover have "fst (snd (main scripted deploy_refused)) = ?s1"
    by (simp add: fatal [THEN conjunct1])
  moreover have "calls_of (snd (snd (main scripted deploy_refused))) =
       [CreateRole role_name ''{}'' role_description ''/'',
        AttachRolePolicy role_name ''arn:aws:iam::aws:policy/AmazonSageMakerFullAccess'',
        AttachRolePolicy role_name ''arn:aws:iam::aws:policy/AmazonS3FullAccess'',
        AttachRolePolicy role_name ''arn:aws:iam::aws:policy/AmazonEC2ContainerRegistryReadOnly'',
        Deploy (huggingface_model role_arn0) deploy_call_args]"
    by (simp only: fatal [THEN conjunct2] c append.simps)
  ultimately show ?thesis by simp
qed


end
